theory Spec2Isabelle
  imports Main "HOL-Library.Sublist"
begin

section \<open>Strings\<close>

text \<open>
  Go strings are byte sequences; they are modelled as \<open>string\<close> (a list of 8-bit
  characters). The functions of package \<open>strings\<close> that the middleware calls are
  written out here.
\<close>

text \<open>
  \<open>strings.Split(s, " ")\<close>: the separator of the only call site is the one-byte string
  \<open>" "\<close>, so the separator is a character. The result is never empty: a string without
  the separator gives the one-element list holding the string itself.
\<close>

fun Split :: "string \<Rightarrow> char \<Rightarrow> string list" where
  "Split [] sep = [[]]"
| "Split (c # cs) sep =
     (if c = sep then [] # Split cs sep
      else (case Split cs sep of
              [] \<Rightarrow> [[c]]
            | p # ps \<Rightarrow> (c # p) # ps))"

text \<open>
  \<open>strings.ToLower\<close>, on bytes: the letters \<open>A\<close> to \<open>Z\<close> are lowered, every other byte
  is kept. (Go also lowers letters outside ASCII; none of them is lowered to a letter of
  \<open>bearer\<close>, the only string the result is compared with.)
\<close>

definition toLowerByte :: "char \<Rightarrow> char" where
  "toLowerByte c =
     (case map_of (zip ''ABCDEFGHIJKLMNOPQRSTUVWXYZ'' ''abcdefghijklmnopqrstuvwxyz'') c of
        Some l \<Rightarrow> l
      | None \<Rightarrow> c)"

definition ToLower :: "string \<Rightarrow> string" where
  "ToLower s = map toLowerByte s"

text \<open>\<open>strings.Contains(s, substr)\<close>: \<open>substr\<close> occurs in \<open>s\<close> as a contiguous block.\<close>

fun Contains :: "string \<Rightarrow> string \<Rightarrow> bool" where
  "Contains [] substr = (substr = [])"
| "Contains (c # cs) substr = (prefix substr (c # cs) \<or> Contains cs substr)"

text \<open>
  \<open>subtle.ConstantTimeCompare(x, y)\<close> returns 1 when the two byte slices have the same
  length and contents and 0 otherwise; its running time is not modelled.
\<close>

definition ConstantTimeCompare :: "string \<Rightarrow> string \<Rightarrow> int" where
  "ConstantTimeCompare x y = (if x = y then 1 else 0)"

section \<open>Error constants (errors.go)\<close>

definition ErrMissingToken :: string where
  "ErrMissingToken = ''missing token''"

definition ErrInvalidToken :: string where
  "ErrInvalidToken = ''invalid token''"

definition ErrUserNotFound :: string where
  "ErrUserNotFound = ''user not found''"

definition ErrNoPermission :: string where
  "ErrNoPermission = ''user does not have the required permission''"

section \<open>Values of the collaborating libraries\<close>

subsection \<open>Typed application errors (package ungerr)\<close>

text \<open>
  Modelled from the spec: package \<open>ungerr\<close> is a separate module whose source is not part
  of the repository. Following the data model of the specification, a typed application
  error carries a status code, a user message (the text its \<open>Error()\<close> method returns) and
  the field-level validation messages. The constructors give the status codes and messages
  the specification names for them: 400, 401 and 403 with the caller's message, 422 with the
  joined field messages, and 500 with a fixed message for the masked internal fault. The
  separator of the join and the wording of the fixed message are not given by the
  specification; the ones below stand for whatever the library uses.
\<close>

record AppError =
  HttpStatus :: int
  userMessage :: string
  fieldMessages :: "string list"

text \<open>\<open>strings.Join(elems, sep)\<close>.\<close>

fun Join :: "string list \<Rightarrow> string \<Rightarrow> string" where
  "Join [] sep = []"
| "Join [e] sep = e"
| "Join (e # es) sep = e @ sep @ Join es sep"

definition BadRequestError :: "string \<Rightarrow> AppError" where
  "BadRequestError msg = \<lparr>HttpStatus = 400, userMessage = msg, fieldMessages = []\<rparr>"

definition UnauthorizedError :: "string \<Rightarrow> AppError" where
  "UnauthorizedError msg = \<lparr>HttpStatus = 401, userMessage = msg, fieldMessages = []\<rparr>"

definition ForbiddenError :: "string \<Rightarrow> AppError" where
  "ForbiddenError msg = \<lparr>HttpStatus = 403, userMessage = msg, fieldMessages = []\<rparr>"

definition ValidationError :: "string list \<Rightarrow> AppError" where
  "ValidationError errs =
     \<lparr>HttpStatus = 422, userMessage = Join errs ''; '', fieldMessages = errs\<rparr>"

definition InternalServerError :: AppError where
  "InternalServerError =
     \<lparr>HttpStatus = 500, userMessage = ''internal server error'', fieldMessages = []\<rparr>"

subsection \<open>Go error values\<close>

text \<open>
  A value of the interface type \<open>error\<close> is one of the dynamic types the middleware can
  tell apart, with the data its methods read:
  \<^item> \<open>AppErr\<close>: a typed application error;
  \<^item> \<open>ValidationErrors\<close>: \<open>validator.ValidationErrors\<close>, a slice of field errors; of a field
  error only \<open>Error()\<close> is ever called, so it is modelled by that text;
  \<^item> \<open>SyntaxError\<close>: \<open>*json.SyntaxError\<close> with its message and offset;
  \<^item> \<open>UnmarshalTypeError\<close>: \<open>*json.UnmarshalTypeError\<close> with \<open>Value\<close>, the name of \<open>Type\<close>,
  \<open>Offset\<close>, \<open>Struct\<close> and \<open>Field\<close>;
  \<^item> \<open>errorString\<close>: the result of \<open>errors.New\<close>; it also stands for an error of any other
  type with the given text and no \<open>Unwrap\<close> method;
  \<^item> \<open>fmtWrapError\<close>: the result of \<open>fmt.Errorf\<close> with the verb \<open>%w\<close>, its text and the error it
  wraps; it also stands for any other error outside eris that has an \<open>Unwrap\<close> method;
  \<^item> \<open>rootError\<close> and \<open>wrapError\<close>: the two error types of package \<open>eris\<close>, a root error with
  its message and the external error it wraps (if any), and a wrap error with its message
  and the eris error below it. Stack traces are left out.
\<close>

datatype FieldError = FieldError string

fun FieldError_Error :: "FieldError \<Rightarrow> string" where
  "FieldError_Error (FieldError text) = text"

datatype goerror =
    AppErr AppError
  | ValidationErrors "FieldError list"
  | SyntaxError string int
  | UnmarshalTypeError string string int string string
  | errorString string
  | fmtWrapError string goerror
  | rootError string "goerror option"
  | wrapError string goerror

text \<open>\<open>io.EOF\<close> is the value \<open>errors.New("EOF")\<close>.\<close>

definition EOF :: goerror where
  "EOF = errorString ''EOF''"

definition isSpace :: "char \<Rightarrow> bool" where
  "isSpace c = (c \<in> set [CHR 0x09, CHR 0x0A, CHR 0x0B, CHR 0x0C, CHR 0x0D, CHR '' ''])"

text \<open>\<open>strings.TrimSpace\<close>, for the white space of ASCII.\<close>

definition TrimSpace :: "string \<Rightarrow> string" where
  "TrimSpace s = rev (dropWhile isSpace (rev (dropWhile isSpace s)))"

text \<open>
  The method \<open>Error()\<close>. For the eris types it is the default string format of the
  package: the messages from the outermost wrap to the root, separated by \<open>": "\<close>, and then
  the external error.
\<close>

fun Error :: "goerror \<Rightarrow> string" where
  "Error (AppErr a) = userMessage a"
| "Error (ValidationErrors ve) =
     TrimSpace (concat (map (\<lambda>fe. FieldError_Error fe @ [CHR 0x0A]) ve))"
| "Error (SyntaxError msg offset) = msg"
| "Error (UnmarshalTypeError val typ offset struct field) =
     (if struct \<noteq> [] \<or> field \<noteq> []
      then ''json: cannot unmarshal '' @ val @ '' into Go struct field '' @ struct @ ''.''
           @ field @ '' of type '' @ typ
      else ''json: cannot unmarshal '' @ val @ '' into Go value of type '' @ typ)"
| "Error (errorString s) = s"
| "Error (fmtWrapError msg err) = msg"
| "Error (rootError msg ext) =
     (case ext of
        None \<Rightarrow> msg
      | Some e \<Rightarrow>
          (let externalStr = Error e in
           msg @ (if Contains externalStr [CHR 0x0A] then [CHR 0x0A]
                  else if msg \<noteq> [] then '': '' else []) @ externalStr))"
| "Error (wrapError msg err) = msg @ '': '' @ Error err"

subsection \<open>Package eris\<close>

text \<open>
  \<open>eris.Errorf(format, args...)\<close>, applied to the formatted message: a root error that
  wraps nothing.
\<close>

definition Errorf :: "string \<Rightarrow> goerror" where
  "Errorf msg = rootError msg None"

text \<open>
  \<open>eris.Wrap(err, msg)\<close>: an eris error gets a wrap error on top, any other error becomes
  the external error of a new root error.
\<close>

fun Wrap :: "goerror \<Rightarrow> string \<Rightarrow> goerror" where
  "Wrap (rootError m ext) msg = wrapError msg (rootError m ext)"
| "Wrap (wrapError m e) msg = wrapError msg (wrapError m e)"
| "Wrap e msg = rootError msg (Some e)"

text \<open>
  \<open>eris.Unwrap(err)\<close>: the result of the \<open>Unwrap\<close> method of \<open>err\<close>, and nil (\<open>None\<close>)
  when the type has none. A root error returns its external error, which is nil for a
  root error made by \<open>eris.New\<close> or \<open>eris.Errorf\<close>.
\<close>

fun Unwrap :: "goerror \<Rightarrow> goerror option" where
  "Unwrap (rootError m ext) = ext"
| "Unwrap (wrapError m e) = Some e"
| "Unwrap (fmtWrapError m e) = Some e"
| "Unwrap e = None"

section \<open>Responses (the JSON envelope)\<close>

datatype anyval = StringVal string | IntVal int | BoolVal bool

record Pagination =
  TotalData :: int
  CurrentPage :: int
  TotalPages :: int
  HasNextPage :: bool
  HasPrevPage :: bool

record JSONResponse =
  Message :: string
  Data :: "anyval option"
  Errors :: "goerror option"
  Pagination :: Pagination

definition NewErrorResponse :: "goerror \<Rightarrow> JSONResponse" where
  "NewErrorResponse err =
     \<lparr>Message = Error err, Data = None, Errors = Some err,
      Pagination = \<lparr>TotalData = 0, CurrentPage = 0, TotalPages = 0,
                    HasNextPage = False, HasPrevPage = False\<rparr>\<rparr>"

section \<open>The request context (gin.Context)\<close>

text \<open>
  The part of \<open>gin.Context\<close> the middleware reads and writes: the request headers, the
  key/value store \<open>Keys\<close>, the error list \<open>Errors\<close> (here \<open>ginErrors\<close>; of each \<open>gin.Error\<close> only
  the wrapped \<open>Err\<close> is kept), whether the chain was aborted, whether the response writer
  has been written to, and the JSON responses handed to the writer, in order.
\<close>

record Context =
  Header :: "string \<rightharpoonup> string"
  Keys :: "string \<rightharpoonup> anyval"
  ginErrors :: "goerror list"
  aborted :: bool
  Written :: bool
  responses :: "(int \<times> JSONResponse) list"

definition GetHeader :: "Context \<Rightarrow> string \<Rightarrow> string" where
  "GetHeader ctx key = (case Header ctx key of None \<Rightarrow> '''' | Some v \<Rightarrow> v)"

definition GetString :: "Context \<Rightarrow> string \<Rightarrow> string" where
  "GetString ctx key = (case Keys ctx key of Some (StringVal s) \<Rightarrow> s | _ \<Rightarrow> '''')"

definition ctxError :: "goerror \<Rightarrow> Context \<Rightarrow> Context" where
  "ctxError err ctx = ctx\<lparr>ginErrors := ginErrors ctx @ [err]\<rparr>"

definition Abort :: "Context \<Rightarrow> Context" where
  "Abort ctx = ctx\<lparr>aborted := True\<rparr>"

definition Last :: "goerror list \<Rightarrow> goerror option" where
  "Last errs = (if errs = [] then None else Some (last errs))"

definition AbortWithStatusJSON :: "int \<Rightarrow> JSONResponse \<Rightarrow> Context \<Rightarrow> Context" where
  "AbortWithStatusJSON code obj ctx =
     (Abort ctx)\<lparr>Written := True, responses := responses ctx @ [(code, obj)]\<rparr>"

text \<open>
  A handler either returns, or panics with a value; in both cases it leaves the context in
  some state. \<open>ctx.Next()\<close> runs the rest of the chain, which is passed to each middleware
  as the handler \<open>next\<close>.
\<close>

datatype panicValue = PanicString string | PanicRuntimeError string | PanicOther

datatype outcome = Returned Context | Panicked panicValue Context

type_synonym HandlerFunc = "Context \<Rightarrow> outcome"

section \<open>Token extraction (extract\_token.go)\<close>

definition validateAndExtractBearerToken :: "string \<Rightarrow> bool \<times> string" where
  "validateAndExtractBearerToken bearerToken =
     (let splits = Split bearerToken (CHR '' '') in
      if length splits \<noteq> 2 then (False, '''')
      else
        (let tokenType = ToLower (splits ! 0);
             ok = (ConstantTimeCompare tokenType ''bearer'' = 1)
         in if \<not> ok then (False, '''') else (True, splits ! 1)))"

definition extractBearerToken :: "Context \<Rightarrow> string \<times> string" where
  "extractBearerToken ctx =
     (let token = GetHeader ctx ''Authorization'' in
      if token = '''' then ('''', ErrMissingToken)
      else (case validateAndExtractBearerToken token of
              (isValid, token') \<Rightarrow>
                if \<not> isValid then ('''', ErrInvalidToken) else (token', '''')))"

definition extractToken :: "Context \<Rightarrow> string \<Rightarrow> string \<times> string \<times> goerror option" where
  "extractToken ctx authStrategy =
     (if authStrategy = ''Bearer''
      then (case extractBearerToken ctx of (token, errMsg) \<Rightarrow> (token, errMsg, None))
      else ('''', '''', Some (Errorf (''unsupported auth strategy: '' @ authStrategy))))"

section \<open>Authentication and permission middleware\<close>

text \<open>
  \<open>tokenCheckFunc\<close> receives the context (a pointer) and the token. It returns the context
  as it leaves it, together with its three results: whether the user exists, the user
  data, and an error (\<open>None\<close> for nil).
\<close>

type_synonym tokenCheck =
  "Context \<Rightarrow> string \<Rightarrow> Context \<times> bool \<times> (string \<rightharpoonup> anyval) \<times> goerror option"

text \<open>
  The handler returned by \<open>NewAuthMiddleware\<close>. The loop \<open>for key, val := range data\<close> calls
  \<open>ctx.Set\<close> once for each entry of the map \<open>data\<close>, whose keys are distinct: the store after
  the loop is the old one overridden by \<open>data\<close>.
\<close>

definition NewAuthMiddleware :: "string \<Rightarrow> tokenCheck \<Rightarrow> HandlerFunc \<Rightarrow> HandlerFunc" where
  "NewAuthMiddleware authStrategy tokenCheckFunc next ctx =
     (case extractToken ctx authStrategy of
        (token, errMsg, Some err) \<Rightarrow>
          Returned (Abort (ctxError (Wrap err ''error extracting token'') ctx))
      | (token, errMsg, None) \<Rightarrow>
          if errMsg \<noteq> '''' then
            Returned (Abort (ctxError (AppErr (UnauthorizedError errMsg)) ctx))
          else
            (case tokenCheckFunc ctx token of
               (ctx', exists, data, Some err) \<Rightarrow> Returned (Abort (ctxError err ctx'))
             | (ctx', exists, data, None) \<Rightarrow>
                 if \<not> exists then
                   Returned (Abort (ctxError (AppErr (UnauthorizedError ErrUserNotFound)) ctx'))
                 else next (ctx'\<lparr>Keys := Keys ctx' ++ data\<rparr>)))"

text \<open>The handler returned by \<open>NewPermissionMiddleware\<close>.\<close>

definition NewPermissionMiddleware ::
  "string \<Rightarrow> string \<Rightarrow> (string \<rightharpoonup> string list) \<Rightarrow> HandlerFunc \<Rightarrow> HandlerFunc" where
  "NewPermissionMiddleware roleContextKey requiredPermission permissionMap next ctx =
     (let role = GetString ctx roleContextKey in
      if role = '''' then
        Returned (Abort (ctxError (Errorf ''role not found in context or invalid type'') ctx))
      else
        (case permissionMap role of
           None \<Rightarrow> Returned (Abort (ctxError (Errorf (''unknown role: '' @ role)) ctx))
         | Some permissions \<Rightarrow>
             if requiredPermission \<notin> set permissions then
               Returned (Abort (ctxError (AppErr (ForbiddenError ErrNoPermission)) ctx))
             else next ctx))"

section \<open>Error middleware (error\_middleware.go)\<close>

text \<open>
  The calls to the logger write to a collaborator outside the request context and decide
  nothing; they are left out, so that \<open>logUnwrappedError\<close> and \<open>logAndMaskError\<close> are what
  they return.
\<close>

definition logUnwrappedError :: "goerror \<Rightarrow> Context \<Rightarrow> AppError" where
  "logUnwrappedError err ctx = InternalServerError"

definition logAndMaskError :: "goerror \<Rightarrow> AppError" where
  "logAndMaskError err = InternalServerError"

definition constructAppError :: "goerror \<Rightarrow> Context \<Rightarrow> AppError" where
  "constructAppError err ctx =
     (case Unwrap err of
        None \<Rightarrow> logUnwrappedError err ctx
      | Some originalErr \<Rightarrow>
          (case originalErr of
             ValidationErrors ve \<Rightarrow> ValidationError (map FieldError_Error ve)
           | SyntaxError msg offset \<Rightarrow> BadRequestError ''invalid json''
           | UnmarshalTypeError val typ offset struct field \<Rightarrow>
               BadRequestError (''invalid value for field '' @ field)
           | _ \<Rightarrow>
               (let errStr = Error originalErr in
                if originalErr = EOF \<or> errStr = ''EOF'' then
                  BadRequestError ''missing request body''
                else if Contains errStr ''connection reset by peer''
                        \<or> Contains errStr ''broken pipe'' then
                  BadRequestError ''connection error''
                else logAndMaskError err)))"

definition handlePanic :: "panicValue \<Rightarrow> Context \<Rightarrow> Context" where
  "handlePanic r ctx =
     (if \<not> Written ctx then
        (let appError = InternalServerError in
         AbortWithStatusJSON (HttpStatus appError) (NewErrorResponse (AppErr appError)) ctx)
      else ctx)"

text \<open>
  \<open>handle\<close>: the deferred function recovers a panic of the rest of the chain and hands it to
  \<open>handlePanic\<close>; when the chain returns, the last error of the list (if any) is answered.
\<close>

definition handle :: "HandlerFunc \<Rightarrow> Context \<Rightarrow> Context" where
  "handle next ctx =
     (case next ctx of
        Panicked r ctx' \<Rightarrow> handlePanic r ctx'
      | Returned ctx' \<Rightarrow>
          (case Last (ginErrors ctx') of
             None \<Rightarrow> ctx'
           | Some err \<Rightarrow>
               (case err of
                  AppErr appErr \<Rightarrow>
                    AbortWithStatusJSON (HttpStatus appErr) (NewErrorResponse (AppErr appErr)) ctx'
                | _ \<Rightarrow>
                    (let appError = constructAppError err ctx' in
                     AbortWithStatusJSON (HttpStatus appError)
                       (NewErrorResponse (AppErr appError)) ctx'))))"

section \<open>Auxiliary definitions\<close>

text \<open>The dynamic types that the type switch of \<open>constructAppError\<close> names.\<close>

fun knownType :: "goerror \<Rightarrow> bool" where
  "knownType (ValidationErrors ve) = True"
| "knownType (SyntaxError msg offset) = True"
| "knownType (UnmarshalTypeError val typ offset struct field) = True"
| "knownType e = False"

text \<open>The context an outcome leaves behind.\<close>

fun contextOf :: "outcome \<Rightarrow> Context" where
  "contextOf (Returned ctx) = ctx"
| "contextOf (Panicked r ctx) = ctx"

subsection \<open>Sample requests, handlers and tables\<close>

text \<open>The context of a request that nothing has touched yet.\<close>

definition freshContext :: Context where
  "freshContext = \<lparr>Header = Map.empty, Keys = Map.empty, ginErrors = [], aborted = False,
     Written = False, responses = []\<rparr>"

text \<open>
  A request with a Bearer token and two entries in the store, a check function that accepts
  the token \<open>abc123\<close> and one that finds no user, a handler that records an error, as
  \<open>WrapHandler\<close> does for a handler that returns one, a handler that panics, and the
  permission table of the tests.
\<close>

definition demoRequest :: Context where
  "demoRequest = freshContext\<lparr>Header := [''Authorization'' \<mapsto> ''Bearer abc123''],
                     Keys := [''role'' \<mapsto> StringVal ''guest'', ''lang'' \<mapsto> StringVal ''en'']\<rparr>"

definition demoCheck :: tokenCheck where
  "demoCheck ctx token =
     (ctx, token = ''abc123'', [''user_id'' \<mapsto> StringVal ''123'', ''role'' \<mapsto> StringVal ''admin''], None)"

definition demoRejectCheck :: tokenCheck where
  "demoRejectCheck ctx token = (ctx, False, [''user_id'' \<mapsto> StringVal ''123''], None)"

definition demoFailing :: "goerror \<Rightarrow> HandlerFunc" where
  "demoFailing err ctx = Returned (ctxError err ctx)"

definition demoPanicking :: "bool \<Rightarrow> HandlerFunc" where
  "demoPanicking written ctx =
     Panicked (PanicRuntimeError ''runtime error: invalid memory address or nil pointer dereference'')
       (ctx\<lparr>Written := written\<rparr>)"

definition demoPermissions :: "string \<rightharpoonup> string list" where
  "demoPermissions = [''admin'' \<mapsto> [''read'', ''write'', ''delete''],
                      ''editor'' \<mapsto> [''read'', ''write''],
                      ''viewer'' \<mapsto> [''read'']]"

section \<open>Properties of the string functions\<close>

lemma Split_not_Nil: "Split s sep \<noteq> []"
  by (induction s) (auto split: list.splits)

lemma Split_no_sep: "sep \<notin> set a \<Longrightarrow> Split a sep = [a]"
  by (induction a) auto

lemma Split_append_sep: "sep \<notin> set a \<Longrightarrow> Split (a @ sep # b) sep = a # Split b sep"
  by (induction a) auto

lemma length_Split: "length (Split s sep) = Suc (count_list s sep)"
  by (induction s) (auto split: list.splits simp: Split_not_Nil)

lemma hd_Split: "hd (Split s sep) = takeWhile (\<lambda>c. c \<noteq> sep) s"
  by (induction s) (auto split: list.splits simp: Split_not_Nil)

lemma Contains_strategy_text:
  "Contains (''unsupported auth strategy: '' @ s) ''connection reset by peer''
     = Contains s ''connection reset by peer''"
  "Contains (''unsupported auth strategy: '' @ s) ''broken pipe'' = Contains s ''broken pipe''"
  by simp_all

section \<open>Properties of the middleware\<close>

subsection \<open>Helper lemmas\<close>

lemma validate_two_parts:
  assumes "CHR '' '' \<notin> set scheme" and "CHR '' '' \<notin> set credential"
  shows "validateAndExtractBearerToken (scheme @ CHR '' '' # credential) =
           (if ToLower scheme = ''bearer'' then (True, credential) else (False, ''''))"
  using assms
  by (simp add: validateAndExtractBearerToken_def Split_append_sep Split_no_sep
      ConstantTimeCompare_def)


lemma extractBearerToken_missing:
  "GetHeader ctx ''Authorization'' = '''' \<Longrightarrow> extractBearerToken ctx = ('''', ErrMissingToken)"
  by (simp add: extractBearerToken_def)

lemma last_ctxError [simp]: "last (ginErrors (Abort (ctxError e ctx))) = e"
  by (simp add: Abort_def ctxError_def)

lemma ginErrors_ctxError [simp]: "ginErrors (Abort (ctxError e ctx)) \<noteq> []"
  by (simp add: Abort_def ctxError_def)

lemma responses_ctxError [simp]: "responses (Abort (ctxError e ctx)) = responses ctx"
  by (simp add: Abort_def ctxError_def)

lemma Keys_ctxError [simp]: "Keys (Abort (ctxError e ctx)) = Keys ctx"
  by (simp add: Abort_def ctxError_def)

lemma aborted_ctxError [simp]: "aborted (Abort (ctxError e ctx))"
  by (simp add: Abort_def ctxError_def)

lemma handle_typed:
  assumes "next ctx = Returned ctx'" and "ginErrors ctx' \<noteq> []"
    and "last (ginErrors ctx') = AppErr appErr"
  shows "handle next ctx =
           AbortWithStatusJSON (HttpStatus appErr) (NewErrorResponse (AppErr appErr)) ctx'"
  using assms by (simp add: handle_def Last_def)

lemma handle_untyped:
  assumes "next ctx = Returned ctx'" and "ginErrors ctx' \<noteq> []"
    and "last (ginErrors ctx') = err" and "\<forall>a. err \<noteq> AppErr a"
  shows "handle next ctx =
           AbortWithStatusJSON (HttpStatus (constructAppError err ctx'))
             (NewErrorResponse (AppErr (constructAppError err ctx'))) ctx'"
  using assms by (cases err) (simp_all add: handle_def Last_def Let_def)

lemma handle_panicked:
  assumes "next ctx = Panicked r ctx'"
  shows "handle next ctx = handlePanic r ctx'"
  using assms by (simp add: handle_def)

lemma responses_AbortWithStatusJSON:
  "responses (AbortWithStatusJSON code obj ctx) = responses ctx @ [(code, obj)]"
  by (simp add: AbortWithStatusJSON_def Abort_def)

lemma constructAppError_nil:
  "Unwrap err = None \<Longrightarrow> constructAppError err ctx = InternalServerError"
  by (simp add: constructAppError_def logUnwrappedError_def)

lemma constructAppError_default:
  assumes "Unwrap err = Some originalErr" and "\<not> knownType originalErr"
  shows "constructAppError err ctx =
     (if originalErr = EOF \<or> Error originalErr = ''EOF'' then
        BadRequestError ''missing request body''
      else if Contains (Error originalErr) ''connection reset by peer''
              \<or> Contains (Error originalErr) ''broken pipe'' then
        BadRequestError ''connection error''
      else InternalServerError)"
  using assms
  by (cases originalErr) (simp_all add: constructAppError_def logAndMaskError_def Let_def)

lemma demoFailing_facts:
  "ginErrors (ctxError err freshContext) \<noteq> []"
  "last (ginErrors (ctxError err freshContext)) = err"
  "responses (ctxError err freshContext) = []"
  by (simp_all add: ctxError_def freshContext_def)

subsection \<open>Error classification\<close>

text \<open>
  Claim C1. The chain returned, the last error of the list is \<open>err\<close>, and
  \<open>eris.Unwrap\<close> gives the underlying error \<open>originalErr\<close>. Then the classifier answers by the
  category of \<open>originalErr\<close>, in this order: validation errors give status 422 with the joined
  field messages; a JSON syntax error gives 400 \<open>invalid json\<close>; a JSON type mismatch gives
  400 \<open>invalid value for field\<close> and the field; otherwise \<open>io.EOF\<close> or the text \<open>EOF\<close> gives 400
  \<open>missing request body\<close>; otherwise a text that contains \<open>connection reset by peer\<close> or
  \<open>broken pipe\<close> gives 400 \<open>connection error\<close>; anything else gives the masked internal error,
  status 500, which is one fixed value: no part of it is computed from the underlying error.
  The response written carries the status and the message of that typed error.
\<close>

theorem classify_unwrapped:
  assumes "next ctx = Returned ctx'" and "ginErrors ctx' \<noteq> []"
    and "last (ginErrors ctx') = err" and "Unwrap err = Some originalErr"
  shows "(\<forall>ve. originalErr = ValidationErrors ve \<longrightarrow>
            HttpStatus (constructAppError err ctx') = 422
          \<and> userMessage (constructAppError err ctx') = Join (map FieldError_Error ve) ''; ''
          \<and> fieldMessages (constructAppError err ctx') = map FieldError_Error ve)
       \<and> (\<forall>msg offset. originalErr = SyntaxError msg offset \<longrightarrow>
            constructAppError err ctx' = BadRequestError ''invalid json'')
       \<and> (\<forall>val typ offset struct field.
            originalErr = UnmarshalTypeError val typ offset struct field \<longrightarrow>
            constructAppError err ctx' = BadRequestError (''invalid value for field '' @ field))
       \<and> (\<not> knownType originalErr \<and> (originalErr = EOF \<or> Error originalErr = ''EOF'') \<longrightarrow>
            constructAppError err ctx' = BadRequestError ''missing request body'')
       \<and> (\<not> knownType originalErr \<and> \<not> (originalErr = EOF \<or> Error originalErr = ''EOF'')
          \<and> (Contains (Error originalErr) ''connection reset by peer''
             \<or> Contains (Error originalErr) ''broken pipe'') \<longrightarrow>
            constructAppError err ctx' = BadRequestError ''connection error'')
       \<and> (\<not> knownType originalErr \<and> \<not> (originalErr = EOF \<or> Error originalErr = ''EOF'')
          \<and> \<not> Contains (Error originalErr) ''connection reset by peer''
          \<and> \<not> Contains (Error originalErr) ''broken pipe'' \<longrightarrow>
            constructAppError err ctx' = InternalServerError)
       \<and> (\<forall>msg. HttpStatus (BadRequestError msg) = 400 \<and> userMessage (BadRequestError msg) = msg)
       \<and> HttpStatus InternalServerError = 500
       \<and> responses (handle next ctx) =
            responses ctx' @ [(HttpStatus (constructAppError err ctx'),
                               NewErrorResponse (AppErr (constructAppError err ctx')))]
       \<and> Message (NewErrorResponse (AppErr (constructAppError err ctx')))
            = userMessage (constructAppError err ctx')"
proof -
  have untyped: "\<forall>a. err \<noteq> AppErr a"
    using assms(4) by auto
  have known: "(\<forall>ve. originalErr = ValidationErrors ve \<longrightarrow>
            constructAppError err ctx' = ValidationError (map FieldError_Error ve))
       \<and> (\<forall>msg offset. originalErr = SyntaxError msg offset \<longrightarrow>
            constructAppError err ctx' = BadRequestError ''invalid json'')
       \<and> (\<forall>val typ offset struct field.
            originalErr = UnmarshalTypeError val typ offset struct field \<longrightarrow>
            constructAppError err ctx' = BadRequestError (''invalid value for field '' @ field))"
    using assms(4) by (simp add: constructAppError_def)
  have resp: "responses (handle next ctx) =
            responses ctx' @ [(HttpStatus (constructAppError err ctx'),
                               NewErrorResponse (AppErr (constructAppError err ctx')))]"
    using handle_untyped [of "next" ctx ctx' err] assms(1-3) untyped
    by (simp add: responses_AbortWithStatusJSON)
  show ?thesis
    using known resp constructAppError_default [OF assms(4), of ctx']
    by (simp add: ValidationError_def BadRequestError_def InternalServerError_def
        NewErrorResponse_def)
qed

theorem classify_unwrapped_witness:
  "responses (handle (demoFailing
      (Wrap (UnmarshalTypeError ''string'' ''int'' 12 ''User'' ''age'') ''failed to bind request''))
      freshContext)
     = [(400, NewErrorResponse (AppErr (BadRequestError ''invalid value for field age'')))]
   \<and> responses (handle (demoFailing (Wrap EOF ''failed to bind request'')) freshContext)
     = [(400, NewErrorResponse (AppErr (BadRequestError ''missing request body'')))]
   \<and> responses (handle (demoFailing (Wrap (errorString ''database connection failed'')
        ''failed to query database'')) freshContext)
     = [(500, NewErrorResponse (AppErr InternalServerError))]"
proof -
  let ?e1 = "UnmarshalTypeError ''string'' ''int'' 12 ''User'' ''age''"
  let ?e3 = "errorString ''database connection failed''"
  let ?w = "\<lambda>e. Wrap e ''failed to bind request''"
  have 1: "responses (handle (demoFailing (?w ?e1)) freshContext)
     = [(400, NewErrorResponse (AppErr (BadRequestError ''invalid value for field age'')))]"
    using classify_unwrapped [of "demoFailing (?w ?e1)" freshContext
        "ctxError (?w ?e1) freshContext" "?w ?e1" ?e1]
    by (simp add: demoFailing_def demoFailing_facts)
  have 2: "responses (handle (demoFailing (?w EOF)) freshContext)
     = [(400, NewErrorResponse (AppErr (BadRequestError ''missing request body'')))]"
    using classify_unwrapped [of "demoFailing (?w EOF)" freshContext
        "ctxError (?w EOF) freshContext" "?w EOF" EOF]
    by (simp add: demoFailing_def demoFailing_facts EOF_def)
  have 3: "responses (handle (demoFailing (Wrap ?e3 ''failed to query database'')) freshContext)
     = [(500, NewErrorResponse (AppErr InternalServerError))]"
    using classify_unwrapped [of "demoFailing (Wrap ?e3 ''failed to query database'')" freshContext
        "ctxError (Wrap ?e3 ''failed to query database'') freshContext"
        "Wrap ?e3 ''failed to query database''" ?e3]
    by (simp add: demoFailing_def demoFailing_facts EOF_def)
  show ?thesis using 1 2 3 by simp
qed

subsection \<open>Typed errors pass through\<close>

text \<open>
  Claim C2. The chain returned and the last error of the list is a typed application error:
  the error middleware aborts and writes one response, with the status code of that error,
  its message as the message of the body, and the error itself in the body.
\<close>

theorem typed_error_passthrough:
  assumes "next ctx = Returned ctx'" and "ginErrors ctx' \<noteq> []"
    and "last (ginErrors ctx') = AppErr appErr"
  shows "responses (handle next ctx) =
           responses ctx' @ [(HttpStatus appErr, NewErrorResponse (AppErr appErr))]
       \<and> Message (NewErrorResponse (AppErr appErr)) = userMessage appErr
       \<and> Errors (NewErrorResponse (AppErr appErr)) = Some (AppErr appErr)
       \<and> aborted (handle next ctx)"
  using assms handle_typed [of "next" ctx ctx' appErr]
  by (simp add: AbortWithStatusJSON_def Abort_def NewErrorResponse_def)

theorem typed_error_passthrough_witness:
  "responses (handle (demoFailing (AppErr \<lparr>HttpStatus = 404, userMessage = ''resource not found'',
       fieldMessages = []\<rparr>)) freshContext)
     = [(404, NewErrorResponse (AppErr \<lparr>HttpStatus = 404, userMessage = ''resource not found'',
       fieldMessages = []\<rparr>))]
   \<and> Message (NewErrorResponse (AppErr \<lparr>HttpStatus = 404, userMessage = ''resource not found'',
       fieldMessages = []\<rparr>)) = ''resource not found''"
  using typed_error_passthrough [of "demoFailing (AppErr \<lparr>HttpStatus = 404,
       userMessage = ''resource not found'', fieldMessages = []\<rparr>)" freshContext
       "ctxError (AppErr \<lparr>HttpStatus = 404, userMessage = ''resource not found'',
          fieldMessages = []\<rparr>) freshContext"
       "\<lparr>HttpStatus = 404, userMessage = ''resource not found'', fieldMessages = []\<rparr>"]
  by (simp add: demoFailing_def demoFailing_facts)

subsection \<open>Role failures\<close>

text \<open>
  Claim C3 (as amended). The role attribute is missing from the store, is not a string, or
  is a string that the permission table does not hold: the permission middleware aborts
  with an eris root error, not with a typed forbidden error, and the error middleware
  answers it with the masked internal error, status 500. The response is the same in the
  three cases.
\<close>

theorem role_failure_masked:
  assumes "Keys ctx roleContextKey = None
         \<or> (\<forall>s. Keys ctx roleContextKey \<noteq> Some (StringVal s))
         \<or> (\<exists>s. Keys ctx roleContextKey = Some (StringVal s) \<and> permissionMap s = None)"
  shows "(\<exists>msg. NewPermissionMiddleware roleContextKey requiredPermission permissionMap next ctx
                 = Returned (Abort (ctxError (Errorf msg) ctx)))
       \<and> responses (handle (NewPermissionMiddleware roleContextKey requiredPermission
                                permissionMap next) ctx)
           = responses ctx @ [(500, NewErrorResponse (AppErr InternalServerError))]"
proof -
  let ?mw = "NewPermissionMiddleware roleContextKey requiredPermission permissionMap next"
  have "GetString ctx roleContextKey = ''''
        \<or> permissionMap (GetString ctx roleContextKey) = None"
    using assms by (auto simp: GetString_def split: option.splits anyval.splits)
  then have m: "\<exists>msg. ?mw ctx = Returned (Abort (ctxError (Errorf msg) ctx))"
    by (auto simp: NewPermissionMiddleware_def Let_def)
  then obtain msg where msg: "?mw ctx = Returned (Abort (ctxError (Errorf msg) ctx))" ..
  have u: "Unwrap (Errorf msg) = None" "\<forall>a. Errorf msg \<noteq> AppErr a"
    by (simp_all add: Errorf_def)
  have "responses (handle ?mw ctx) = responses ctx @ [(500, NewErrorResponse (AppErr InternalServerError))]"
    using handle_untyped [of ?mw ctx "Abort (ctxError (Errorf msg) ctx)" "Errorf msg"] msg u(2)
      constructAppError_nil [OF u(1)]
    by (simp add: responses_AbortWithStatusJSON InternalServerError_def)
  then show ?thesis using m by simp
qed

theorem role_failure_masked_witness:
  "map fst (responses (handle (NewPermissionMiddleware ''role'' ''read'' demoPermissions Returned)
       (freshContext\<lparr>Keys := [''role'' \<mapsto> IntVal 123]\<rparr>))) = [500]
   \<and> map fst (responses (handle (NewPermissionMiddleware ''role'' ''read'' demoPermissions Returned)
       (freshContext\<lparr>Keys := [''role'' \<mapsto> StringVal ''unknown'']\<rparr>))) = [500]"
  using role_failure_masked [of "freshContext\<lparr>Keys := [''role'' \<mapsto> IntVal 123]\<rparr>" "''role''"
      demoPermissions "''read''" Returned]
    role_failure_masked [of "freshContext\<lparr>Keys := [''role'' \<mapsto> StringVal ''unknown'']\<rparr>" "''role''"
      demoPermissions "''read''" Returned]
  by (simp add: freshContext_def demoPermissions_def)

text \<open>
  The claim as it was stated asks for the forbidden class of the insufficient-permission
  case. With no role in the store the status is 500, while a viewer that asks for \<open>write\<close>
  gets 403.
\<close>

theorem role_failure_counterexample:
  "Keys freshContext ''role'' = None
   \<and> map fst (responses (handle (NewPermissionMiddleware ''role'' ''read'' demoPermissions Returned)
        freshContext)) = [500]
   \<and> map fst (responses (handle (NewPermissionMiddleware ''role'' ''write'' demoPermissions Returned)
        (freshContext\<lparr>Keys := [''role'' \<mapsto> StringVal ''viewer'']\<rparr>))) = [403]"
  by (simp add: handle_def NewPermissionMiddleware_def GetString_def Errorf_def Abort_def
      ctxError_def Last_def constructAppError_def logUnwrappedError_def AbortWithStatusJSON_def
      InternalServerError_def ForbiddenError_def freshContext_def demoPermissions_def)

subsection \<open>Recovered panics\<close>

text \<open>
  Claim C4. The chain panicked and the guard recovered the panic. If nothing had been
  written to the response, the guard writes exactly one response, the masked internal error
  with status 500; if the response had been written to, the guard leaves the context as it
  is. In both cases it writes at most one response.
\<close>

theorem panic_single_write:
  assumes "next ctx = Panicked r ctx'"
  shows "(\<not> Written ctx' \<longrightarrow>
            responses (handle next ctx) =
              responses ctx' @ [(500, NewErrorResponse (AppErr InternalServerError))]
            \<and> Written (handle next ctx) \<and> aborted (handle next ctx))
       \<and> (Written ctx' \<longrightarrow> handle next ctx = ctx')
       \<and> length (responses (handle next ctx)) \<le> Suc (length (responses ctx'))"
  using assms handle_panicked [of "next" ctx r ctx']
  by (simp add: handlePanic_def AbortWithStatusJSON_def Abort_def InternalServerError_def)

theorem panic_single_write_witness:
  "responses (handle (demoPanicking False) freshContext)
     = [(500, NewErrorResponse (AppErr InternalServerError))]
   \<and> responses (handle (demoPanicking True) freshContext) = []"
  using panic_single_write [of "demoPanicking False" freshContext
      "PanicRuntimeError ''runtime error: invalid memory address or nil pointer dereference''"
      "freshContext\<lparr>Written := False\<rparr>"]
    panic_single_write [of "demoPanicking True" freshContext
      "PanicRuntimeError ''runtime error: invalid memory address or nil pointer dereference''"
      "freshContext\<lparr>Written := True\<rparr>"]
  by (simp add: demoPanicking_def freshContext_def)

subsection \<open>Bearer extraction succeeds\<close>

text \<open>
  Claim C5. A header made of a scheme, one space and a credential, neither of which holds a
  space, with a scheme that is \<open>bearer\<close> up to letter case: validation, Bearer extraction
  and token extraction succeed and return the credential as it stands, also when it is
  empty (the header \<open>"Bearer "\<close>).
\<close>

theorem bearer_extraction_verbatim:
  assumes "CHR '' '' \<notin> set scheme" and "CHR '' '' \<notin> set credential"
    and "ToLower scheme = ''bearer''"
    and "Header ctx ''Authorization'' = Some (scheme @ '' '' @ credential)"
  shows "validateAndExtractBearerToken (scheme @ '' '' @ credential) = (True, credential)
       \<and> extractBearerToken ctx = (credential, '''')
       \<and> extractToken ctx ''Bearer'' = (credential, '''', None)"
proof -
  have v: "validateAndExtractBearerToken (scheme @ '' '' @ credential) = (True, credential)"
    using assms(1-3) by (simp add: validate_two_parts)
  have h: "GetHeader ctx ''Authorization'' = scheme @ '' '' @ credential"
    using assms(4) by (simp add: GetHeader_def)
  have e: "extractBearerToken ctx = (credential, '''')"
    unfolding extractBearerToken_def h using v by simp
  show ?thesis using v e by (simp add: extractToken_def)
qed

theorem bearer_extraction_verbatim_witness:
  "extractBearerToken (freshContext\<lparr>Header := [''Authorization'' \<mapsto> ''Bearer '']\<rparr>) = ('''', '''')
   \<and> extractBearerToken (freshContext\<lparr>Header := [''Authorization'' \<mapsto> ''bEARER abc123'']\<rparr>)
       = (''abc123'', '''')"
  using bearer_extraction_verbatim [of "''Bearer''" "''''"
          "freshContext\<lparr>Header := [''Authorization'' \<mapsto> ''Bearer '']\<rparr>"]
        bearer_extraction_verbatim [of "''bEARER''" "''abc123''"
          "freshContext\<lparr>Header := [''Authorization'' \<mapsto> ''bEARER abc123'']\<rparr>"]
  by (simp add: ToLower_def toLowerByte_def)

subsection \<open>Bearer extraction rejects\<close>



subsection \<open>Missing token\<close>

text \<open>
  Claim C7. The \<open>Authorization\<close> header is absent or empty: Bearer extraction reports
  \<open>missing token\<close>, which is not the invalid-token failure; the authentication middleware
  aborts with the typed unauthorized error of status 401, and the response has status 401
  and the message \<open>missing token\<close>.
\<close>

theorem missing_token_unauthorized:
  assumes "Header ctx ''Authorization'' = None \<or> Header ctx ''Authorization'' = Some ''''"
  shows "extractBearerToken ctx = ('''', ErrMissingToken)
       \<and> snd (extractBearerToken ctx) \<noteq> ErrInvalidToken
       \<and> NewAuthMiddleware ''Bearer'' tokenCheckFunc next ctx =
           Returned (Abort (ctxError (AppErr (UnauthorizedError ''missing token'')) ctx))
       \<and> HttpStatus (UnauthorizedError ''missing token'') = 401
       \<and> responses (handle (NewAuthMiddleware ''Bearer'' tokenCheckFunc next) ctx) =
           responses ctx @ [(401, NewErrorResponse (AppErr (UnauthorizedError ''missing token'')))]
       \<and> Message (NewErrorResponse (AppErr (UnauthorizedError ''missing token''))) = ''missing token''"
proof -
  have h: "GetHeader ctx ''Authorization'' = ''''"
    using assms by (auto simp: GetHeader_def)
  have e: "extractBearerToken ctx = ('''', ErrMissingToken)"
    using h by (rule extractBearerToken_missing)
  have m: "NewAuthMiddleware ''Bearer'' tokenCheckFunc next ctx =
           Returned (Abort (ctxError (AppErr (UnauthorizedError ''missing token'')) ctx))"
    using e by (simp add: NewAuthMiddleware_def extractToken_def ErrMissingToken_def)
  have r: "responses (handle (NewAuthMiddleware ''Bearer'' tokenCheckFunc next) ctx) =
           responses ctx @ [(401, NewErrorResponse (AppErr (UnauthorizedError ''missing token'')))]"
    using handle_typed [of "NewAuthMiddleware ''Bearer'' tokenCheckFunc next" ctx
        "Abort (ctxError (AppErr (UnauthorizedError ''missing token'')) ctx)"
        "UnauthorizedError ''missing token''"] m
    by (simp add: responses_AbortWithStatusJSON UnauthorizedError_def)
  show ?thesis
    using e m r
    by (simp add: ErrMissingToken_def ErrInvalidToken_def UnauthorizedError_def
        NewErrorResponse_def)
qed

theorem missing_token_unauthorized_witness:
  "map fst (responses (handle (NewAuthMiddleware ''Bearer'' (\<lambda>c t. (c, True, Map.empty, None))
       Returned) freshContext)) = [401]
   \<and> map (Message \<circ> snd) (responses (handle (NewAuthMiddleware ''Bearer''
       (\<lambda>c t. (c, True, Map.empty, None)) Returned)
         (freshContext\<lparr>Header := [''Authorization'' \<mapsto> '''']\<rparr>))) = [''missing token'']"
  using missing_token_unauthorized [of freshContext "\<lambda>c t. (c, True, Map.empty, None)" Returned]
    missing_token_unauthorized [of "freshContext\<lparr>Header := [''Authorization'' \<mapsto> '''']\<rparr>"
      "\<lambda>c t. (c, True, Map.empty, None)" Returned]
  by (simp add: freshContext_def)

subsection \<open>Unsupported strategy\<close>

text \<open>
  Claim C8 (as amended). For a strategy name other than \<open>Bearer\<close>, token extraction returns a
  hard error and no request-level failure; the authentication middleware wraps it and
  aborts; the error middleware classifies the wrapped error by the text of the hard error,
  which ends in the strategy name: the answer is the masked internal error, status 500,
  unless the name contains \<open>connection reset by peer\<close> or \<open>broken pipe\<close>, when it is 400
  \<open>connection error\<close>. It is never a 401.
\<close>

theorem unsupported_strategy_hard_error:
  assumes "authStrategy \<noteq> ''Bearer''"
  shows "extractToken ctx authStrategy =
           ('''', '''', Some (Errorf (''unsupported auth strategy: '' @ authStrategy)))
       \<and> NewAuthMiddleware authStrategy tokenCheckFunc next ctx =
           Returned (Abort (ctxError
             (Wrap (Errorf (''unsupported auth strategy: '' @ authStrategy))
                ''error extracting token'') ctx))
       \<and> responses (handle (NewAuthMiddleware authStrategy tokenCheckFunc next) ctx) =
           responses ctx @
             [if Contains authStrategy ''connection reset by peer''
                 \<or> Contains authStrategy ''broken pipe''
              then (400, NewErrorResponse (AppErr (BadRequestError ''connection error'')))
              else (500, NewErrorResponse (AppErr InternalServerError))]"
proof -
  let ?root = "Errorf (''unsupported auth strategy: '' @ authStrategy)"
  let ?err = "Wrap ?root ''error extracting token''"
  let ?ctx' = "Abort (ctxError ?err ctx)"
  have e: "extractToken ctx authStrategy = ('''', '''', Some ?root)"
    using assms by (simp add: extractToken_def)
  have m: "NewAuthMiddleware authStrategy tokenCheckFunc next ctx = Returned ?ctx'"
    using e by (simp add: NewAuthMiddleware_def)
  have u: "Unwrap ?err = Some ?root" "\<not> knownType ?root" "\<forall>a. ?err \<noteq> AppErr a"
    by (simp_all add: Errorf_def)
  have t: "Error ?root = ''unsupported auth strategy: '' @ authStrategy" "?root \<noteq> EOF"
    by (simp_all add: Errorf_def EOF_def)
  have c: "constructAppError ?err ?ctx' =
      (if Contains authStrategy ''connection reset by peer'' \<or> Contains authStrategy ''broken pipe''
       then BadRequestError ''connection error'' else InternalServerError)"
    unfolding constructAppError_default [OF u(1,2)] t(1) Contains_strategy_text
    using t(2) by simp
  have r: "responses (handle (NewAuthMiddleware authStrategy tokenCheckFunc next) ctx) =
      responses ctx @ [(HttpStatus (constructAppError ?err ?ctx'),
                        NewErrorResponse (AppErr (constructAppError ?err ?ctx')))]"
    using handle_untyped [of "NewAuthMiddleware authStrategy tokenCheckFunc next" ctx ?ctx' ?err]
      m u(3) by (simp add: responses_AbortWithStatusJSON)
  show ?thesis
    using e m r c by (simp add: BadRequestError_def InternalServerError_def)
qed

theorem unsupported_strategy_hard_error_witness:
  "map fst (responses (handle (NewAuthMiddleware ''Basic'' demoCheck Returned) demoRequest)) = [500]
   \<and> map (Message \<circ> snd)
        (responses (handle (NewAuthMiddleware ''Basic'' demoCheck Returned) demoRequest))
       = [userMessage InternalServerError]"
  using unsupported_strategy_hard_error [of "''Basic''" demoRequest demoCheck Returned]
  by (simp add: demoRequest_def freshContext_def NewErrorResponse_def)

text \<open>
  The claim as it was stated promises status 500 for every other strategy name. The name
  \<open>broken pipe\<close> gets status 400.
\<close>

theorem unsupported_strategy_counterexample:
  "''broken pipe'' \<noteq> ''Bearer''
   \<and> map fst (responses (handle (NewAuthMiddleware ''broken pipe'' demoCheck Returned) demoRequest))
       = [400]
   \<and> map (Message \<circ> snd)
        (responses (handle (NewAuthMiddleware ''broken pipe'' demoCheck Returned) demoRequest))
       = [''connection error'']"
  by (simp add: handle_def NewAuthMiddleware_def extractToken_def Errorf_def Abort_def
      ctxError_def Last_def constructAppError_def EOF_def AbortWithStatusJSON_def
      NewErrorResponse_def BadRequestError_def demoRequest_def freshContext_def)

subsection \<open>Successful authentication\<close>

text \<open>
  Claim C9. Extraction gave a usable token and \<open>tokenCheckFunc\<close> returned true, the
  attributes and no error: the middleware runs the rest of the chain on the context whose
  store is the old store overridden by the attributes, so that every entry of the
  attributes is in the store and the other keys keep their values; the middleware neither
  aborts nor records an error.
\<close>

theorem auth_success_merges_attributes:
  assumes "extractToken ctx authStrategy = (token, '''', None)"
    and "tokenCheckFunc ctx token = (ctx', True, attributes, None)"
  shows "NewAuthMiddleware authStrategy tokenCheckFunc next ctx =
           next (ctx'\<lparr>Keys := Keys ctx' ++ attributes\<rparr>)
       \<and> (\<forall>k v. attributes k = Some v \<longrightarrow> (Keys ctx' ++ attributes) k = Some v)
       \<and> (\<forall>k. attributes k = None \<longrightarrow> (Keys ctx' ++ attributes) k = Keys ctx' k)
       \<and> aborted (ctx'\<lparr>Keys := Keys ctx' ++ attributes\<rparr>) = aborted ctx'
       \<and> ginErrors (ctx'\<lparr>Keys := Keys ctx' ++ attributes\<rparr>) = ginErrors ctx'"
proof -
  have run: "NewAuthMiddleware authStrategy tokenCheckFunc next ctx =
           next (ctx'\<lparr>Keys := Keys ctx' ++ attributes\<rparr>)"
    using assms by (simp add: NewAuthMiddleware_def)
  have new: "\<forall>k v. attributes k = Some v \<longrightarrow> (Keys ctx' ++ attributes) k = Some v"
    by simp
  have old: "\<forall>k. attributes k = None \<longrightarrow> (Keys ctx' ++ attributes) k = Keys ctx' k"
    by (simp add: map_add_def)
  show ?thesis using run new old by simp
qed

theorem auth_success_merges_attributes_witness:
  "map (Keys (contextOf (NewAuthMiddleware ''Bearer'' demoCheck Returned demoRequest)))
     [''user_id'', ''role'', ''lang'', ''other'']
     = [Some (StringVal ''123''), Some (StringVal ''admin''), Some (StringVal ''en''), None]
   \<and> \<not> aborted (contextOf (NewAuthMiddleware ''Bearer'' demoCheck Returned demoRequest))"
proof -
  have e: "extractToken demoRequest ''Bearer'' = (''abc123'', '''', None)"
    by (simp add: extractToken_def extractBearerToken_def GetHeader_def demoRequest_def
        validateAndExtractBearerToken_def ToLower_def toLowerByte_def ConstantTimeCompare_def)
  have c: "demoCheck demoRequest ''abc123'' = (demoRequest, True,
      [''user_id'' \<mapsto> StringVal ''123'', ''role'' \<mapsto> StringVal ''admin''], None)"
    by (simp add: demoCheck_def)
  have "NewAuthMiddleware ''Bearer'' demoCheck Returned demoRequest =
          Returned (demoRequest\<lparr>Keys := Keys demoRequest ++
             [''user_id'' \<mapsto> StringVal ''123'', ''role'' \<mapsto> StringVal ''admin'']\<rparr>)"
    using auth_success_merges_attributes [of demoRequest "''Bearer''" "''abc123''" demoCheck
        demoRequest "[''user_id'' \<mapsto> StringVal ''123'', ''role'' \<mapsto> StringVal ''admin'']" Returned]
      e c by simp
  then show ?thesis
    by (simp add: demoRequest_def freshContext_def map_add_def)
qed

subsection \<open>Failed authentication\<close>

text \<open>
  Claim C10. On every failing path of the authentication middleware (a hard extraction
  error, a missing or invalid token, an error of \<open>tokenCheckFunc\<close>, or no user found) the
  middleware returns without running the rest of the chain, aborted and with an error
  recorded, and it has written nothing to the store: the store is the one of the incoming
  context, or, once \<open>tokenCheckFunc\<close> has run, the one \<open>tokenCheckFunc\<close> left.
\<close>

theorem auth_failure_keeps_store:
  assumes "extractToken ctx authStrategy = (token, errMsg, hard)"
    and "tokenCheckFunc ctx token = (ctx', exists, data, err)"
    and "hard \<noteq> None \<or> errMsg \<noteq> '''' \<or> err \<noteq> None \<or> \<not> exists"
  shows "\<exists>c. NewAuthMiddleware authStrategy tokenCheckFunc next ctx = Returned c
           \<and> aborted c \<and> ginErrors c \<noteq> []
           \<and> Keys c = (if hard = None \<and> errMsg = '''' then Keys ctx' else Keys ctx)"
  using assms by (auto simp: NewAuthMiddleware_def split: option.splits)

theorem auth_failure_keeps_store_witness:
  "map (Keys (contextOf (NewAuthMiddleware ''Bearer'' demoRejectCheck Returned demoRequest)))
     [''user_id'', ''role'', ''lang'']
     = [None, Some (StringVal ''guest''), Some (StringVal ''en'')]
   \<and> aborted (contextOf (NewAuthMiddleware ''Bearer'' demoRejectCheck Returned demoRequest))"
proof -
  have e: "extractToken demoRequest ''Bearer'' = (''abc123'', '''', None)"
    by (simp add: extractToken_def extractBearerToken_def GetHeader_def demoRequest_def
        validateAndExtractBearerToken_def ToLower_def toLowerByte_def ConstantTimeCompare_def)
  have c: "demoRejectCheck demoRequest ''abc123'' =
             (demoRequest, False, [''user_id'' \<mapsto> StringVal ''123''], None)"
    by (simp add: demoRejectCheck_def)
  have "\<exists>c. NewAuthMiddleware ''Bearer'' demoRejectCheck Returned demoRequest = Returned c
          \<and> aborted c \<and> ginErrors c \<noteq> [] \<and> Keys c = Keys demoRequest"
    using auth_failure_keeps_store [of demoRequest "''Bearer''" "''abc123''" "''''" None
        demoRejectCheck demoRequest False "[''user_id'' \<mapsto> StringVal ''123'']" None Returned]
      e c by simp
  then show ?thesis
    by (auto simp: demoRequest_def freshContext_def)
qed

end
